theory Spec2Isabelle
  imports Main "HOL-Library.Char_ord" "HOL-Library.List_Lexorder" "HOL-Library.Sublist"
begin

section \<open>The Atom serializer of src/src/atom.ts\<close>

text \<open>
  The serializer turns a feed model into Atom XML text. Strings are \<open>char list\<close>;
  a value that may be \<^verbatim>\<open>null\<close> or \<^verbatim>\<open>undefined\<close> is an \<open>option\<close>
  (both are \<open>None\<close>: every test of the source treats the two alike).
\<close>

subsection \<open>Helpers imported from the tools library\<close>

text \<open>
  Modelled from the spec: \<^verbatim>\<open>is.value\<close> of the imported tools library (not under src/):
  a value is present when it is neither \<^verbatim>\<open>null\<close> nor \<^verbatim>\<open>undefined\<close>; the empty
  string is present. Where the source applies the test to an object, an array or a map,
  the model writes it as the case distinction on the option.
\<close>

definition is_value :: \<open>'a option \<Rightarrow> bool\<close> where
  \<open>is_value x = (case x of None \<Rightarrow> False | Some _ \<Rightarrow> True)\<close>

text \<open>
  Modelled from the spec: \<^verbatim>\<open>is.empty\<close> of the imported tools library: content is empty
  when it is the "no value" sentinel or the empty string.
\<close>

definition is_empty :: \<open>string option \<Rightarrow> bool\<close> where
  \<open>is_empty x = (case x of None \<Rightarrow> True | Some s \<Rightarrow> s = [])\<close>

text \<open>
  Modelled from the spec: \<^verbatim>\<open>htmlEscape\<close> of the imported tools library: one pass over
  the string that replaces \<^verbatim>\<open>&\<close>, \<^verbatim>\<open><\<close>, \<^verbatim>\<open>>\<close> and the two quote characters
  with their entity forms and keeps every other character.
\<close>

definition htmlEntity :: \<open>char \<Rightarrow> string\<close> where
  \<open>htmlEntity c =
     (if c = CHR ''&'' then ''&amp;''
      else if c = CHR ''<'' then ''&lt;''
      else if c = CHR ''>'' then ''&gt;''
      else if c = CHR ''"'' then ''&quot;''
      else if c = CHR 0x27 then ''&#39;''
      else [c])\<close>

definition htmlEscape :: \<open>string \<Rightarrow> string\<close> where
  \<open>htmlEscape html = concat (map htmlEntity html)\<close>

text \<open>
  Modelled from the spec: \<^verbatim>\<open>LinkRelation.Alternate\<close> of the imported tools library, the
  relation a bare string link gets.
\<close>

definition LinkRelation_Alternate :: string where
  \<open>LinkRelation_Alternate = ''alternate''\<close>

text \<open>
  A value inside a template literal: a string stands for itself, an absent value prints
  as \<^verbatim>\<open>undefined\<close>.
\<close>

definition template :: \<open>string option \<Rightarrow> string\<close> where
  \<open>template x = (case x of Some s \<Rightarrow> s | None \<Rightarrow> ''undefined'')\<close>

text \<open>\<^verbatim>\<open>Array.prototype.join\<close> on an array of strings.\<close>

fun join :: \<open>string \<Rightarrow> string list \<Rightarrow> string\<close> where
  \<open>join sep [] = []\<close>
| \<open>join sep [x] = x\<close>
| \<open>join sep (x # y # ys) = x @ sep @ join sep (y # ys)\<close>

subsection \<open>The data model (the declarations of ./types)\<close>

text \<open>
  Modelled from the spec: the type declarations of \<^verbatim>\<open>./types\<close> are not under src/. The
  records follow section 3 of the specification and the entry built in
  src/lib/atom.test.ts. The string values of \<^verbatim>\<open>TextType\<close> are the ones the tests
  and the comment of \<^verbatim>\<open>writeTextTag\<close> show: \<^verbatim>\<open>type="text"\<close>, \<^verbatim>\<open>type="html"\<close>,
  \<^verbatim>\<open>type="xhtml"\<close>.
\<close>

datatype TextType = Plain | HTML | XHTML

fun textTypeValue :: \<open>TextType \<Rightarrow> string\<close> where
  \<open>textTypeValue Plain = ''text''\<close>
| \<open>textTypeValue HTML = ''html''\<close>
| \<open>textTypeValue XHTML = ''xhtml''\<close>

text \<open>A timestamp, represented by the string its \<^verbatim>\<open>toISOString()\<close> yields.\<close>

datatype Date = Date (toISOString: string)

text \<open>A structured text: \<^verbatim>\<open>{ value, type }\<close>.\<close>

datatype Text = Text (text_value: \<open>string option\<close>) (text_type: \<open>TextType option\<close>)

text \<open>What a scalar field of an entity holds when it is present.\<close>

datatype jsval = JString string | JDate Date | JText Text

record Person =
  person_name :: string
  person_uri :: \<open>string option\<close>
  person_email :: \<open>string option\<close>

text \<open>
  \<^verbatim>\<open>Person | Person[]\<close>. The source compares two such values with \<^verbatim>\<open>==\<close>, which
  on objects and arrays is identity, so a reference carries the address of its object
  beside the object itself.
\<close>

datatype Persons = OnePerson Person | ManyPersons \<open>Person list\<close>

record PersonRef =
  ref_addr :: nat
  ref_obj :: Persons

record Generator =
  gen_name :: string
  gen_uri :: \<open>string option\<close>
  gen_version :: \<open>string option\<close>
  gen_generator :: \<open>string option\<close>

text \<open>
  A link object: its own enumerable keys in insertion order, each with its value
  (\<open>None\<close> for a key set to \<^verbatim>\<open>undefined\<close>). Keys are distinct, as in an object.
\<close>

type_synonym Link = \<open>(string \<times> string option) list\<close>

datatype LinkItem = LinkText string | LinkObj Link

datatype LinkInput = OneLink LinkItem | ManyLinks \<open>LinkItem list\<close>

record Entry =
  entry_id :: \<open>jsval option\<close>
  entry_title :: \<open>jsval option\<close>
  entry_updated :: \<open>jsval option\<close>
  entry_published :: \<open>jsval option\<close>
  entry_author :: \<open>PersonRef option\<close>
  entry_contributor :: \<open>PersonRef option\<close>
  entry_rights :: \<open>jsval option\<close>
  entry_content :: \<open>jsval option\<close>
  entry_summary :: \<open>jsval option\<close>
  entry_link :: \<open>LinkInput option\<close>

record Feed =
  feed_id :: \<open>jsval option\<close>
  feed_title :: \<open>jsval option\<close>
  feed_subtitle :: \<open>jsval option\<close>
  feed_rights :: \<open>jsval option\<close>
  feed_author :: \<open>PersonRef option\<close>
  feed_generator :: \<open>Generator option\<close>
  feed_entry :: \<open>Entry list\<close>

text \<open>
  An ordered attribute map (\<^verbatim>\<open>Map<string, string>\<close>): the pairs in insertion order,
  keys distinct.
\<close>

type_synonym Attributes = \<open>(string \<times> string) list\<close>

text \<open>
  \<^verbatim>\<open>entity[name]\<close>: the entity kinds \<^verbatim>\<open>writeEntityTag\<close> and \<^verbatim>\<open>writeTextTag\<close> are
  called with, and the scalar fields read off them. The serializer passes only the
  literal names listed here; any other name reads as absent.
\<close>

datatype entity = EFeed Feed | EEntry Entry | EPerson Person | EGenerator Generator

fun field :: \<open>entity \<Rightarrow> string \<Rightarrow> jsval option\<close> where
  \<open>field (EFeed f) n =
     (if n = ''id'' then feed_id f
      else if n = ''title'' then feed_title f
      else if n = ''subtitle'' then feed_subtitle f
      else if n = ''rights'' then feed_rights f
      else None)\<close>
| \<open>field (EEntry e) n =
     (if n = ''id'' then entry_id e
      else if n = ''title'' then entry_title e
      else if n = ''updated'' then entry_updated e
      else if n = ''published'' then entry_published e
      else if n = ''rights'' then entry_rights e
      else if n = ''content'' then entry_content e
      else if n = ''summary'' then entry_summary e
      else None)\<close>
| \<open>field (EPerson p) n =
     (if n = ''name'' then Some (JString (person_name p))
      else if n = ''uri'' then map_option JString (person_uri p)
      else if n = ''email'' then map_option JString (person_email p)
      else None)\<close>
| \<open>field (EGenerator g) n =
     (if n = ''name'' then Some (JString (gen_name g))
      else if n = ''uri'' then map_option JString (gen_uri g)
      else if n = ''version'' then map_option JString (gen_version g)
      else if n = ''generator'' then map_option JString (gen_generator g)
      else None)\<close>

text \<open>
  \<^verbatim>\<open>a == b\<close> on two values of type \<^verbatim>\<open>Person | Person[] | null | undefined\<close>:
  \<^verbatim>\<open>null\<close> and \<^verbatim>\<open>undefined\<close> equal each other and nothing else, two objects are
  equal when they are the same object.
\<close>

fun looseEq :: \<open>PersonRef option \<Rightarrow> PersonRef option \<Rightarrow> bool\<close> where
  \<open>looseEq None None = True\<close>
| \<open>looseEq (Some a) (Some b) = (ref_addr a = ref_addr b)\<close>
| \<open>looseEq _ _ = False\<close>

text \<open>Following a reference to the person or array it points to.\<close>

definition deref :: \<open>PersonRef option \<Rightarrow> Persons option\<close> where
  \<open>deref r = map_option ref_obj r\<close>

subsection \<open>The writers\<close>

text \<open>
  \<^verbatim>\<open>writeAttributes\<close>: for each key of the map, in order, a space and
  \<^verbatim>\<open>key="value"\<close>, where the value is \<^verbatim>\<open>attr.get(key)\<close>.
\<close>

definition writeAttributes :: \<open>Attributes option \<Rightarrow> string\<close> where
  \<open>writeAttributes attr =
     (case attr of
        Some a \<Rightarrow>
          foldl (\<lambda>pairs key. pairs @ '' '' @ key @ ''="'' @ template (map_of a key) @ ''"'')
            [] (map fst a)
      | None \<Rightarrow> [])\<close>

text \<open>
  \<^verbatim>\<open>writeTag\<close>. The \<open>None\<close> branch of the inner case is never taken: \<open>is_empty None\<close>
  holds.
\<close>

definition writeTag :: \<open>string \<Rightarrow> string option \<Rightarrow> Attributes option \<Rightarrow> string\<close> where
  \<open>writeTag name v attr =
     (if is_empty v then []
      else (case v of
              Some s \<Rightarrow> ''<'' @ name @ writeAttributes attr @ ''>'' @ htmlEscape s @ ''</'' @ name @ ''>''
            | None \<Rightarrow> []))\<close>

text \<open>
  \<^verbatim>\<open>writeEntityTag\<close>: a date renders through \<^verbatim>\<open>toISOString()\<close>, anything else through
  \<^verbatim>\<open>toString()\<close>, which is the string itself for a string and
  \<^verbatim>\<open>[object Object]\<close> for a structured text.
\<close>

definition writeEntityTag :: \<open>string \<Rightarrow> entity \<Rightarrow> Attributes option \<Rightarrow> string\<close> where
  \<open>writeEntityTag name ent attr =
     (let content = field ent name;
          text = (case content of
                    None \<Rightarrow> []
                  | Some (JDate d) \<Rightarrow> toISOString d
                  | Some (JString s) \<Rightarrow> s
                  | Some (JText t) \<Rightarrow> ''[object Object]'')
      in writeTag name (Some text) attr)\<close>

text \<open>
  \<^verbatim>\<open>writeGenerator\<close> assigns \<^verbatim>\<open>g.generator = g.name\<close>, computes the entity tag, drops it
  and returns the empty string. The assignment is a write to the model, so the function
  returns the generator as it is afterwards beside its string.
\<close>

definition writeGenerator :: \<open>Generator option \<Rightarrow> string \<times> Generator option\<close> where
  \<open>writeGenerator g =
     (case g of
        Some g0 \<Rightarrow>
          (let g1 = g0\<lparr>gen_generator := Some (gen_name g0)\<rparr>;
               dropped = writeEntityTag ''generator'' (EGenerator g1) None
           in ([], Some g1))
      | None \<Rightarrow> ([], None))\<close>

text \<open>
  \<^verbatim>\<open>writeTextTag\<close>: \<^verbatim>\<open>attr\<close> starts as an empty map and \<^verbatim>\<open>value\<close> as the empty
  string. A string gets the type \<^verbatim>\<open>TextType.Plain\<close>; any other present content is read
  as a structured text (a date has neither \<^verbatim>\<open>type\<close> nor \<^verbatim>\<open>value\<close>).
\<close>

definition writeTextTag :: \<open>string \<Rightarrow> entity \<Rightarrow> string\<close> where
  \<open>writeTextTag name ent =
     (case field ent name of
        None \<Rightarrow> writeTag name (Some []) (Some [])
      | Some (JString s) \<Rightarrow> writeTag name (Some s) (Some [(''type'', textTypeValue Plain)])
      | Some (JText t) \<Rightarrow>
          writeTag name (text_value t)
            (case text_type t of
               Some ty \<Rightarrow> Some [(''type'', textTypeValue ty)]
             | None \<Rightarrow> Some [])
      | Some (JDate d) \<Rightarrow> writeTag name None (Some []))\<close>

text \<open>\<^verbatim>\<open>writePerson\<close>: an array folds over its persons, one person is wrapped in the tag.\<close>

function writePerson :: \<open>string \<Rightarrow> Persons option \<Rightarrow> string\<close> where
  \<open>writePerson tag (Some (ManyPersons ps)) =
     foldl (\<lambda>list p. list @ writePerson tag (Some (OnePerson p))) [] ps\<close>
| \<open>writePerson tag (Some (OnePerson p)) =
     ''<'' @ tag @ ''>'' @
     writeEntityTag ''name'' (EPerson p) None @
     writeEntityTag ''uri'' (EPerson p) None @
     writeEntityTag ''email'' (EPerson p) None @
     ''</'' @ tag @ ''>''\<close>
| \<open>writePerson tag None = []\<close>
  by pat_completeness auto
termination
  by (relation \<open>measure (\<lambda>(tag, person). case person of
        Some (ManyPersons _) \<Rightarrow> 1 | _ \<Rightarrow> 0)\<close>) auto

definition writeEntry :: \<open>Entry \<Rightarrow> PersonRef option \<Rightarrow> string\<close> where
  \<open>writeEntry e feedAuthor =
     ''<entry>'' @
     writeEntityTag ''id'' (EEntry e) None @
     writeTextTag ''title'' (EEntry e) @
     writeEntityTag ''updated'' (EEntry e) None @
     writeEntityTag ''published'' (EEntry e) None @
     (if looseEq feedAuthor (entry_author e) then []
      else writePerson ''author'' (deref (entry_author e))) @
     writePerson ''contributor'' (deref (entry_contributor e)) @
     writeTextTag ''rights'' (EEntry e) @
     writeTextTag ''content'' (EEntry e) @
     writeTextTag ''summary'' (EEntry e) @
     ''</entry>''\<close>

text \<open>
  \<^verbatim>\<open>write\<close> (the name is a keyword of Isabelle, hence \<open>writeFeed\<close>): the document, and
  the feed as \<^verbatim>\<open>writeGenerator\<close> leaves it.
\<close>

definition writeFeed :: \<open>Feed \<Rightarrow> string \<times> Feed\<close> where
  \<open>writeFeed feed =
     (let (gen, g') = writeGenerator (feed_generator feed)
      in (''<?xml version="1.0" encoding="utf-8"?>'' @
          ''<feed xmlns="http://www.w3.org/2005/Atom">'' @
          writeEntityTag ''id'' (EFeed feed) None @
          writeEntityTag ''title'' (EFeed feed) None @
          writeEntityTag ''subtitle'' (EFeed feed) None @
          writeEntityTag ''rights'' (EFeed feed) None @
          writePerson ''author'' (deref (feed_author feed)) @
          gen @
          join [] (map (\<lambda>e. writeEntry e (feed_author feed)) (feed_entry feed)) @
          ''</feed>'',
          feed\<lparr>feed_generator := g'\<rparr>))\<close>

text \<open>
  \<^verbatim>\<open>writeLink\<close>: an array folds over its links, a string becomes the object
  \<^verbatim>\<open>{ href, rel: alternate }\<close>, an object folds over its sorted keys and writes each
  key whose value \<^verbatim>\<open>link[key]\<close> passes \<^verbatim>\<open>is.value\<close>.
\<close>

definition link_get :: \<open>Link \<Rightarrow> string \<Rightarrow> string option\<close> where
  \<open>link_get link key = (case map_of link key of Some v \<Rightarrow> v | None \<Rightarrow> None)\<close>

function writeLink :: \<open>LinkInput \<Rightarrow> string\<close> where
  \<open>writeLink (ManyLinks ls) = foldl (\<lambda>list l. list @ writeLink (OneLink l)) [] ls\<close>
| \<open>writeLink (OneLink (LinkText s)) =
     writeLink (OneLink (LinkObj [(''href'', Some s), (''rel'', Some LinkRelation_Alternate)]))\<close>
| \<open>writeLink (OneLink (LinkObj link)) =
     ''<link'' @
     foldl (\<lambda>attr key.
              let v = link_get link key
              in attr @ (if is_value v then '' '' @ key @ ''="'' @ template v @ ''"'' else []))
       [] (sort (map fst link)) @
     ''/>''\<close>
  by pat_completeness auto
termination
  by (relation \<open>measure (\<lambda>l. case l of
        ManyLinks _ \<Rightarrow> 2 | OneLink (LinkText _) \<Rightarrow> 1 | OneLink (LinkObj _) \<Rightarrow> 0)\<close>)
    (auto split: LinkItem.splits)

subsection \<open>Example inputs\<close>

text \<open>The persons, the entry and a feed in the style of src/lib/atom.test.ts.\<close>

definition person1 :: Person where
  \<open>person1 = \<lparr>person_name = ''Person'', person_uri = None, person_email = None\<rparr>\<close>

definition person2 :: Person where
  \<open>person2 = \<lparr>person_name = ''Bob'', person_uri = None, person_email = Some ''bob@test.com''\<rparr>\<close>

definition example_generator :: Generator where
  \<open>example_generator =
     \<lparr>gen_name = ''Example Toolkit'', gen_uri = Some ''http://www.example.com/'',
      gen_version = Some ''1.0'', gen_generator = None\<rparr>\<close>

definition test_entry :: Entry where
  \<open>test_entry =
     \<lparr>entry_id = Some (JString ''id''),
      entry_title = Some (JString ''title''),
      entry_updated = Some (JDate (Date ''2020-01-02T03:04:05.678Z'')),
      entry_published = Some (JDate (Date ''2020-01-02T03:04:05.678Z'')),
      entry_author = None,
      entry_contributor = None,
      entry_rights = None,
      entry_content = Some (JString ''content''),
      entry_summary = Some (JText (Text (Some ''<p>summary</p>'') (Some HTML))),
      entry_link = Some (OneLink (LinkObj [(''href'', Some ''http://test.com'')]))\<rparr>\<close>

definition test_feed :: Feed where
  \<open>test_feed =
     \<lparr>feed_id = Some (JString ''id''),
      feed_title = Some (JString ''title''),
      feed_subtitle = None,
      feed_rights = None,
      feed_author = Some \<lparr>ref_addr = 1, ref_obj = OnePerson person1\<rparr>,
      feed_generator = Some example_generator,
      feed_entry = [test_entry]\<rparr>\<close>

text \<open>A person with an empty name, and an entry whose fields are empty or absent.\<close>

definition empty_person :: Person where
  \<open>empty_person = \<lparr>person_name = [], person_uri = None, person_email = None\<rparr>\<close>

definition empty_entry :: Entry where
  \<open>empty_entry =
     \<lparr>entry_id = Some (JString []), entry_title = Some (JString []), entry_updated = None,
      entry_published = None, entry_author = None, entry_contributor = None,
      entry_rights = None, entry_content = None, entry_summary = None, entry_link = None\<rparr>\<close>

subsection \<open>Where a tag can start\<close>

text \<open>
  A string is \<open>tagSafe\<close> when each of its \<^verbatim>\<open><\<close> characters is followed by a character
  other than \<^verbatim>\<open>l\<close>: no \<^verbatim>\<open>link\<close> tag starts in it. The property is kept by
  concatenation, which an absence of the substring alone is not.
\<close>

fun tagSafe :: \<open>string \<Rightarrow> bool\<close> where
  \<open>tagSafe [] = True\<close>
| \<open>tagSafe [c] = (c \<noteq> CHR ''<'')\<close>
| \<open>tagSafe (c # d # cs) = ((c \<noteq> CHR ''<'' \<or> d \<noteq> CHR ''l'') \<and> tagSafe (d # cs))\<close>

text \<open>
  A tag name that may follow \<^verbatim>\<open><\<close> in a \<open>tagSafe\<close> string: non-empty, not starting
  with \<^verbatim>\<open>l\<close>, and without \<^verbatim>\<open><\<close>.
\<close>

definition tagName :: \<open>string \<Rightarrow> bool\<close> where
  \<open>tagName name = (case name of [] \<Rightarrow> False | c # cs \<Rightarrow> c \<noteq> CHR ''l'' \<and> CHR ''<'' \<notin> set name)\<close>

section \<open>Auxiliary facts\<close>

lemma foldl_append_concat:
  \<open>foldl (\<lambda>acc x. acc @ f x) a xs = a @ concat (map f xs)\<close>
  by (induction xs arbitrary: a) simp_all

lemma join_empty_sep: \<open>join [] xs = concat xs\<close>
  by (induction \<open>[] :: string\<close> xs rule: join.induct) simp_all

lemma htmlEntity_not_Nil: \<open>htmlEntity c \<noteq> []\<close>
  by (simp add: htmlEntity_def)

lemma htmlEscape_Nil_iff: \<open>htmlEscape s = [] \<longleftrightarrow> s = []\<close>
  by (cases s) (simp_all add: htmlEscape_def htmlEntity_not_Nil)

lemma writeGenerator_fst: \<open>fst (writeGenerator g) = []\<close>
  by (simp add: writeGenerator_def Let_def split: option.splits)

lemmas tag_defs =
  writeEntityTag_def writeTextTag_def writeTag_def is_empty_def writeAttributes_def
  template_def htmlEscape_def htmlEntity_def

lemma writeTag_Some:
  \<open>writeTag name (Some s) attr =
     (if s = [] then []
      else ''<'' @ name @ writeAttributes attr @ ''>'' @ htmlEscape s @ ''</'' @ name @ ''>'')\<close>
  by (simp add: writeTag_def is_empty_def)

lemma writeTag_None: \<open>writeTag name None attr = []\<close>
  by (simp add: writeTag_def is_empty_def)

lemma writeAttributes_simps:
  \<open>writeAttributes None = []\<close>
  \<open>writeAttributes (Some []) = []\<close>
  \<open>writeAttributes (Some [(k, v)]) = '' '' @ k @ ''="'' @ v @ ''"''\<close>
  by (simp_all add: writeAttributes_def template_def)

lemma writeEntityTag_cases:
  \<open>writeEntityTag name ent attr = [] \<or>
   (\<exists>c. c \<noteq> [] \<and> writeEntityTag name ent attr =
      ''<'' @ name @ writeAttributes attr @ ''>'' @ htmlEscape c @ ''</'' @ name @ ''>'')\<close>
  by (auto simp: writeEntityTag_def Let_def writeTag_Some)

lemma writeTextTag_cases:
  \<open>writeTextTag name ent = [] \<or>
   (\<exists>a c. c \<noteq> [] \<and> writeTextTag name ent =
      ''<'' @ name @ writeAttributes a @ ''>'' @ htmlEscape c @ ''</'' @ name @ ''>'')\<close>
proof (cases \<open>writeTextTag name ent = []\<close>)
  case True
  then show ?thesis by simp
next
  case False
  then obtain a v where eq: \<open>writeTextTag name ent = writeTag name v a\<close>
    by (auto simp: writeTextTag_def split: option.splits jsval.splits)
  with False obtain c where \<open>v = Some c\<close> \<open>c \<noteq> []\<close>
    by (cases v) (auto simp: writeTag_None writeTag_Some split: if_splits)
  with eq have \<open>c \<noteq> [] \<and> writeTextTag name ent =
      ''<'' @ name @ writeAttributes a @ ''>'' @ htmlEscape c @ ''</'' @ name @ ''>''\<close>
    by (simp add: writeTag_Some)
  then show ?thesis by blast
qed

lemma writeTextTag_resolved:
  \<open>writeTextTag name ent =
     (case field ent name of
        None \<Rightarrow> []
      | Some (JString s) \<Rightarrow>
          if s = [] then []
          else ''<'' @ name @ '' type="text">'' @ htmlEscape s @ ''</'' @ name @ ''>''
      | Some (JText t) \<Rightarrow>
          (case text_value t of
             None \<Rightarrow> []
           | Some v \<Rightarrow>
               if v = [] then []
               else ''<'' @ name @
                    (case text_type t of
                       Some ty \<Rightarrow> '' type="'' @ textTypeValue ty @ ''"''
                     | None \<Rightarrow> []) @
                    ''>'' @ htmlEscape v @ ''</'' @ name @ ''>'')
      | Some (JDate d) \<Rightarrow> [])\<close>
  by (simp add: writeTextTag_def writeTag_Some writeTag_None writeAttributes_simps
      split: option.splits jsval.splits)

lemma concat_map_split:
  \<open>k \<in> set ks \<Longrightarrow> \<exists>pre post. concat (map f ks) = pre @ f k @ post\<close>
proof -
  assume \<open>k \<in> set ks\<close>
  then obtain ys zs where \<open>ks = ys @ k # zs\<close>
    by (auto simp: in_set_conv_decomp)
  then have \<open>concat (map f ks) = concat (map f ys) @ f k @ concat (map f zs)\<close>
    by simp
  then show ?thesis by blast
qed

lemma link_attribute:
  \<open>(if is_value v then '' '' @ key @ ''="'' @ template v @ ''"'' else []) =
     (case v of Some x \<Rightarrow> '' '' @ key @ ''="'' @ x @ ''"'' | None \<Rightarrow> [])\<close>
  by (cases v) (simp_all add: is_value_def template_def)

lemma writeLink_obj:
  \<open>writeLink (OneLink (LinkObj link)) =
     ''<link'' @
     concat (map (\<lambda>key. case link_get link key of
                           Some v \<Rightarrow> '' '' @ key @ ''="'' @ v @ ''"''
                         | None \<Rightarrow> [])
               (sort (map fst link))) @
     ''/>''\<close>
  by (simp add: Let_def foldl_append_concat link_attribute)

lemma writeLink_text:
  \<open>writeLink (OneLink (LinkText s)) = ''<link href="'' @ s @ ''" rel="alternate"/>''\<close>
  by (simp add: writeLink_obj link_get_def LinkRelation_Alternate_def del: writeLink.simps(3))

lemma writeLink_many:
  \<open>writeLink (ManyLinks ls) = concat (map (\<lambda>l. writeLink (OneLink l)) ls)\<close>
  by (simp only: writeLink.simps foldl_append_concat append_Nil)

lemma writeLink_example:
  \<open>writeLink (OneLink (LinkObj [(''href'', Some ''http://x''), (''type'', Some ''atom+xml''),
                                 (''rel'', Some ''enclosure'')])) =
     ''<link href="http://x" rel="enclosure" type="atom+xml"/>''\<close>
  by (simp add: link_get_def is_value_def template_def)

lemma writeLink_href:
  assumes h: \<open>map_of link ''href'' = Some (Some h)\<close>
  shows \<open>\<exists>pre post. writeLink (OneLink (LinkObj link)) =
         ''<link'' @ pre @ '' href="'' @ h @ ''"'' @ post @ ''/>''\<close>
proof -
  let ?f = \<open>\<lambda>key. case link_get link key of
                    Some v \<Rightarrow> '' '' @ key @ ''="'' @ v @ ''"''
                  | None \<Rightarrow> []\<close>
  from h have \<open>(''href'', Some h) \<in> set link\<close>
    by (rule map_of_SomeD)
  then have \<open>''href'' \<in> fst ` set link\<close>
    by (rule rev_image_eqI) simp
  then have \<open>''href'' \<in> set (sort (map fst link))\<close>
    by simp
  then obtain pre post where
    split: \<open>concat (map ?f (sort (map fst link))) = pre @ ?f ''href'' @ post\<close>
    using concat_map_split [of \<open>''href''\<close> \<open>sort (map fst link)\<close> ?f] by blast
  from h have at: \<open>?f ''href'' = '' href="'' @ h @ ''"''\<close>
    by (simp add: link_get_def)
  have \<open>writeLink (OneLink (LinkObj link)) =
        ''<link'' @ pre @ '' href="'' @ h @ ''"'' @ post @ ''/>''\<close>
    unfolding writeLink_obj split at by simp
  then show ?thesis by blast
qed

lemma tagSafe_Cons_other: \<open>c \<noteq> CHR ''<'' \<Longrightarrow> tagSafe (c # cs) = tagSafe cs\<close>
  by (cases cs) simp_all

lemma tagSafe_tail: \<open>tagSafe (c # cs) \<Longrightarrow> tagSafe cs\<close>
  by (cases cs) simp_all

lemma tagSafe_append: \<open>tagSafe a \<Longrightarrow> tagSafe b \<Longrightarrow> tagSafe (a @ b)\<close>
proof (induction a rule: tagSafe.induct)
  case 1
  then show ?case by simp
next
  case (2 c)
  then show ?case by (simp add: tagSafe_Cons_other)
next
  case (3 c d cs)
  then show ?case by simp
qed

lemma tagSafe_concat: \<open>(\<And>x. x \<in> set xs \<Longrightarrow> tagSafe x) \<Longrightarrow> tagSafe (concat xs)\<close>
  by (induction xs) (simp_all add: tagSafe_append)

lemma no_lt_tagSafe: \<open>CHR ''<'' \<notin> set s \<Longrightarrow> tagSafe s\<close>
  by (induction s) (auto simp: tagSafe_Cons_other)

lemma htmlEscape_no_lt: \<open>CHR ''<'' \<notin> set (htmlEscape s)\<close>
  by (induction s) (simp_all add: htmlEscape_def htmlEntity_def)

lemma tagSafe_no_link: \<open>tagSafe s \<Longrightarrow> \<not> sublist ''<link'' s\<close>
proof
  assume safe: \<open>tagSafe s\<close> and \<open>sublist ''<link'' s\<close>
  then obtain ps ss where s: \<open>s = ps @ ''<link'' @ ss\<close>
    by (auto simp: sublist_def)
  have \<open>\<not> tagSafe (ps @ ''<link'' @ ss)\<close>
  proof (induction ps)
    case Nil
    then show ?case by simp
  next
    case (Cons p ps)
    then show ?case using tagSafe_tail [of p \<open>ps @ ''<link'' @ ss\<close>] by auto
  qed
  with safe s show False by simp
qed

lemma tagSafe_open: \<open>tagName name \<Longrightarrow> tagSafe (''<'' @ name)\<close>
  by (cases name) (auto simp: tagName_def intro: no_lt_tagSafe)

lemma tagSafe_close: \<open>tagName name \<Longrightarrow> tagSafe (''</'' @ name @ ''>'')\<close>
  by (cases name) (auto simp: tagName_def tagSafe_Cons_other intro!: no_lt_tagSafe)

lemma writeTag_tagSafe:
  assumes \<open>tagName name\<close> and \<open>CHR ''<'' \<notin> set (writeAttributes attr)\<close>
  shows \<open>tagSafe (writeTag name v attr)\<close>
proof (cases v)
  case None
  then show ?thesis by (simp add: writeTag_None)
next
  case (Some s)
  have \<open>tagSafe ((''<'' @ name) @ writeAttributes attr @ ''>'' @ htmlEscape s @ (''</'' @ name @ ''>''))\<close>
    using assms
    by (intro tagSafe_append tagSafe_open tagSafe_close no_lt_tagSafe htmlEscape_no_lt) simp_all
  with Some show ?thesis by (simp add: writeTag_Some)
qed

lemma writeEntityTag_tagSafe: \<open>tagName name \<Longrightarrow> tagSafe (writeEntityTag name ent None)\<close>
  by (simp add: writeEntityTag_def Let_def writeTag_tagSafe writeAttributes_simps)

lemma textTypeValue_no_lt: \<open>CHR ''<'' \<notin> set (textTypeValue ty)\<close>
  by (cases ty) simp_all

lemma writeTextTag_tagSafe: \<open>tagName name \<Longrightarrow> tagSafe (writeTextTag name ent)\<close>
  by (simp add: writeTextTag_def writeTag_tagSafe writeAttributes_simps textTypeValue_no_lt
      split: option.splits jsval.splits)

lemma writePerson_tagSafe:
  assumes \<open>tagName tag\<close>
  shows \<open>tagSafe (writePerson tag person)\<close>
proof -
  have one: \<open>tagSafe (writePerson tag (Some (OnePerson p)))\<close> for p
  proof -
    have \<open>tagSafe ((''<'' @ tag) @ ''>'' @
        writeEntityTag ''name'' (EPerson p) None @
        writeEntityTag ''uri'' (EPerson p) None @
        writeEntityTag ''email'' (EPerson p) None @
        (''</'' @ tag @ ''>''))\<close>
      using assms
      by (intro tagSafe_append tagSafe_open tagSafe_close writeEntityTag_tagSafe no_lt_tagSafe)
        (simp_all add: tagName_def)
    then show ?thesis by simp
  qed
  show ?thesis
  proof (cases person)
    case None
    then show ?thesis by simp
  next
    case (Some ps)
    show ?thesis
    proof (cases ps)
      case (OnePerson p)
      with Some one [of p] show ?thesis by (simp del: writePerson.simps)
    next
      case (ManyPersons xs)
      have \<open>writePerson tag (Some (ManyPersons xs)) =
          concat (map (\<lambda>p. writePerson tag (Some (OnePerson p))) xs)\<close>
        by (simp only: writePerson.simps foldl_append_concat append_Nil)
      moreover have \<open>tagSafe (concat (map (\<lambda>p. writePerson tag (Some (OnePerson p))) xs))\<close>
        by (rule tagSafe_concat) (auto simp del: writePerson.simps intro: one)
      ultimately show ?thesis using Some ManyPersons by (simp del: writePerson.simps)
    qed
  qed
qed

lemma writeEntry_tagSafe: \<open>tagSafe (writeEntry e feedAuthor)\<close>
  unfolding writeEntry_def
  by (intro tagSafe_append writeEntityTag_tagSafe writeTextTag_tagSafe writePerson_tagSafe)
    (simp_all add: tagName_def writePerson_tagSafe)

lemma writeFeed_tagSafe: \<open>tagSafe (fst (writeFeed feed))\<close>
proof -
  have \<open>tagSafe (
     ''<?xml version="1.0" encoding="utf-8"?>'' @
     ''<feed xmlns="http://www.w3.org/2005/Atom">'' @
     writeEntityTag ''id'' (EFeed feed) None @
     writeEntityTag ''title'' (EFeed feed) None @
     writeEntityTag ''subtitle'' (EFeed feed) None @
     writeEntityTag ''rights'' (EFeed feed) None @
     writePerson ''author'' (deref (feed_author feed)) @
     concat (map (\<lambda>e. writeEntry e (feed_author feed)) (feed_entry feed)) @
     ''</feed>'')\<close>
    by (intro tagSafe_append writeEntityTag_tagSafe writePerson_tagSafe tagSafe_concat)
      (auto simp: tagName_def writeEntry_tagSafe)
  then show ?thesis
    by (simp add: writeFeed_def split_beta writeGenerator_fst join_empty_sep)
qed

lemma writeEntry_link_irrelevant: \<open>writeEntry (e\<lparr>entry_link := l\<rparr>) feedAuthor = writeEntry e feedAuthor\<close>
  by (simp add: writeEntry_def writeEntityTag_def writeTextTag_def)

section \<open>The document\<close>

text \<open>
  C1. The claim is that the string \<^verbatim>\<open>write\<close> returns holds, between the feed's author
  and its entries, the generator as \<^verbatim>\<open>writeGenerator\<close> renders it. The source puts
  the return value of \<^verbatim>\<open>writeGenerator\<close> there, which is the empty string for every
  generator. So for every feed the document is the prologue, the opening \<^verbatim>\<open>feed\<close>
  tag, the entity tags of id, title, subtitle and rights, the author, the entries in
  the feed's order and the closing tag, with nothing for the generator: the feed's
  generator has no effect on the document, and the document of the example feed,
  which has a generator, has no \<^verbatim>\<open>generator\<close> element.
\<close>

theorem write_omits_generator:
  \<open>fst (writeFeed feed) =
     ''<?xml version="1.0" encoding="utf-8"?>'' @
     ''<feed xmlns="http://www.w3.org/2005/Atom">'' @
     writeEntityTag ''id'' (EFeed feed) None @
     writeEntityTag ''title'' (EFeed feed) None @
     writeEntityTag ''subtitle'' (EFeed feed) None @
     writeEntityTag ''rights'' (EFeed feed) None @
     writePerson ''author'' (deref (feed_author feed)) @
     concat (map (\<lambda>e. writeEntry e (feed_author feed)) (feed_entry feed)) @
     ''</feed>'' \<and>
   fst (writeFeed (feed\<lparr>feed_generator := g\<rparr>)) = fst (writeFeed feed) \<and>
   feed_generator test_feed = Some example_generator \<and>
   fst (writeFeed test_feed) =
     ''<?xml version="1.0" encoding="utf-8"?>'' @
     ''<feed xmlns="http://www.w3.org/2005/Atom">'' @
     ''<id>id</id>'' @
     ''<title>title</title>'' @
     ''<author><name>Person</name></author>'' @
     ''<entry><id>id</id><title type="text">title</title>'' @
     ''<updated>2020-01-02T03:04:05.678Z</updated>'' @
     ''<published>2020-01-02T03:04:05.678Z</published>'' @
     ''<content type="text">content</content>'' @
     ''<summary type="html">&lt;p&gt;summary&lt;/p&gt;</summary></entry>'' @
     ''</feed>'' \<and>
   \<not> sublist ''<generator'' (fst (writeFeed test_feed))\<close>
proof (intro conjI)
  show general: \<open>fst (writeFeed feed) =
     ''<?xml version="1.0" encoding="utf-8"?>'' @
     ''<feed xmlns="http://www.w3.org/2005/Atom">'' @
     writeEntityTag ''id'' (EFeed feed) None @
     writeEntityTag ''title'' (EFeed feed) None @
     writeEntityTag ''subtitle'' (EFeed feed) None @
     writeEntityTag ''rights'' (EFeed feed) None @
     writePerson ''author'' (deref (feed_author feed)) @
     concat (map (\<lambda>e. writeEntry e (feed_author feed)) (feed_entry feed)) @
     ''</feed>''\<close> for feed
    by (simp add: writeFeed_def split_beta writeGenerator_fst join_empty_sep)
  show \<open>fst (writeFeed (feed\<lparr>feed_generator := g\<rparr>)) = fst (writeFeed feed)\<close>
    by (simp add: general writeEntityTag_def)
  show \<open>feed_generator test_feed = Some example_generator\<close>
    by (simp add: test_feed_def)
  show doc: \<open>fst (writeFeed test_feed) =
     ''<?xml version="1.0" encoding="utf-8"?>'' @
     ''<feed xmlns="http://www.w3.org/2005/Atom">'' @
     ''<id>id</id>'' @
     ''<title>title</title>'' @
     ''<author><name>Person</name></author>'' @
     ''<entry><id>id</id><title type="text">title</title>'' @
     ''<updated>2020-01-02T03:04:05.678Z</updated>'' @
     ''<published>2020-01-02T03:04:05.678Z</published>'' @
     ''<content type="text">content</content>'' @
     ''<summary type="html">&lt;p&gt;summary&lt;/p&gt;</summary></entry>'' @
     ''</feed>''\<close>
    by (simp add: general test_feed_def test_entry_def person1_def writeEntry_def
        deref_def tag_defs)
  show \<open>\<not> sublist ''<generator'' (fst (writeFeed test_feed))\<close>
    unfolding doc by (simp add: sublist_Cons_right)
qed

section \<open>Persons\<close>

text \<open>
  C9. For every role tag, \<^verbatim>\<open>writePerson\<close> returns the empty string when no person is
  supplied, and for a sequence of persons the concatenation, in input order and with
  nothing in between, of one element per person: the role tag around the entity tags of
  name, uri and email, where an absent uri or email contributes nothing. The person of
  the test file renders as the test expects.
\<close>

theorem writePerson_sequence:
  \<open>writePerson tag None = [] \<and>
   writePerson tag (Some (ManyPersons [])) = [] \<and>
   writePerson tag (Some (ManyPersons ps)) =
     concat (map (\<lambda>p. writePerson tag (Some (OnePerson p))) ps) \<and>
   writePerson tag (Some (OnePerson p)) =
     ''<'' @ tag @ ''>'' @
     writeTag ''name'' (Some (person_name p)) None @
     (case person_uri p of None \<Rightarrow> [] | Some u \<Rightarrow> writeTag ''uri'' (Some u) None) @
     (case person_email p of None \<Rightarrow> [] | Some m \<Rightarrow> writeTag ''email'' (Some m) None) @
     ''</'' @ tag @ ''>'' \<and>
   writePerson ''author'' (Some (OnePerson person2)) =
     ''<author><name>Bob</name><email>bob@test.com</email></author>''\<close>
proof -
  have many: \<open>writePerson tag (Some (ManyPersons ps)) =
      concat (map (\<lambda>p. writePerson tag (Some (OnePerson p))) ps)\<close>
    by (simp only: writePerson.simps foldl_append_concat append_Nil)
  have one: \<open>writePerson tag (Some (OnePerson p)) =
     ''<'' @ tag @ ''>'' @
     writeTag ''name'' (Some (person_name p)) None @
     (case person_uri p of None \<Rightarrow> [] | Some u \<Rightarrow> writeTag ''uri'' (Some u) None) @
     (case person_email p of None \<Rightarrow> [] | Some m \<Rightarrow> writeTag ''email'' (Some m) None) @
     ''</'' @ tag @ ''>''\<close>
    by (simp add: writeEntityTag_def writeTag_def is_empty_def split: option.splits)
  have bob: \<open>writePerson ''author'' (Some (OnePerson person2)) =
     ''<author><name>Bob</name><email>bob@test.com</email></author>''\<close>
    by (simp add: person2_def tag_defs)
  show ?thesis using many one bob by simp
qed

text \<open>The theorem at the two-person sequence of the test file.\<close>

theorem writePerson_sequence_witness:
  \<open>writePerson ''author'' (Some (ManyPersons [person1, person2])) =
     ''<author><name>Person</name></author>'' @
     ''<author><name>Bob</name><email>bob@test.com</email></author>''\<close>
  using writePerson_sequence [of \<open>''author''\<close> \<open>[person1, person2]\<close> person1]
  by (simp add: person1_def person2_def tag_defs)

section \<open>Tags and escaping\<close>

text \<open>
  C7. For every name, attributes and content, \<^verbatim>\<open>writeTag\<close> returns the empty string
  when the content is the "no value" sentinel or the empty string, whatever the
  attributes are, and otherwise the opening tag with the attributes, the escaped content
  and the closing tag. Escaping is one pass that replaces each \<^verbatim>\<open>&\<close>, \<^verbatim>\<open><\<close>, \<^verbatim>\<open>>\<close>
  and quote character with its entity and keeps every other character. A structured
  text is escaped in the same way whatever its declared type. The example of the
  specification holds: the content \<^verbatim>\<open><p>&x</p>\<close> under the name \<^verbatim>\<open>t\<close>.
\<close>

theorem writeTag_escapes:
  \<open>writeTag name None attr = [] \<and>
   writeTag name (Some []) attr = [] \<and>
   (s \<noteq> [] \<longrightarrow>
      writeTag name (Some s) attr =
        ''<'' @ name @ writeAttributes attr @ ''>'' @ htmlEscape s @ ''</'' @ name @ ''>'') \<and>
   htmlEscape s =
     concat (map (\<lambda>c. if c = CHR ''&'' then ''&amp;''
                      else if c = CHR ''<'' then ''&lt;''
                      else if c = CHR ''>'' then ''&gt;''
                      else if c = CHR ''"'' then ''&quot;''
                      else if c = CHR 0x27 then ''&#39;''
                      else [c]) s) \<and>
   (s \<noteq> [] \<and> field ent name = Some (JText (Text (Some s) ty)) \<longrightarrow>
      writeTextTag name ent =
        ''<'' @ name @
        (case ty of Some t \<Rightarrow> '' type="'' @ textTypeValue t @ ''"'' | None \<Rightarrow> []) @
        ''>'' @ htmlEscape s @ ''</'' @ name @ ''>'') \<and>
   writeTag ''t'' (Some ''<p>&x</p>'') None = ''<t>&lt;p&gt;&amp;x&lt;/p&gt;</t>''\<close>
proof -
  have esc: \<open>htmlEscape s =
     concat (map (\<lambda>c. if c = CHR ''&'' then ''&amp;''
                      else if c = CHR ''<'' then ''&lt;''
                      else if c = CHR ''>'' then ''&gt;''
                      else if c = CHR ''"'' then ''&quot;''
                      else if c = CHR 0x27 then ''&#39;''
                      else [c]) s)\<close>
    unfolding htmlEscape_def htmlEntity_def ..
  have typed: \<open>s \<noteq> [] \<and> field ent name = Some (JText (Text (Some s) ty)) \<longrightarrow>
      writeTextTag name ent =
        ''<'' @ name @
        (case ty of Some t \<Rightarrow> '' type="'' @ textTypeValue t @ ''"'' | None \<Rightarrow> []) @
        ''>'' @ htmlEscape s @ ''</'' @ name @ ''>''\<close>
    by (cases ty) (simp_all add: writeTextTag_def writeTag_Some writeAttributes_simps)
  have ex: \<open>writeTag ''t'' (Some ''<p>&x</p>'') None = ''<t>&lt;p&gt;&amp;x&lt;/p&gt;</t>''\<close>
    by (simp add: tag_defs)
  show ?thesis
    using esc typed ex by (simp add: writeTag_Some writeTag_None)
qed

text \<open>The theorem at the summary of the test entry, an \<^verbatim>\<open>html\<close> text.\<close>

theorem writeTag_escapes_witness:
  \<open>writeTag ''summary'' (Some ''<p>summary</p>'') (Some [(''type'', ''html'')]) =
     ''<summary type="html">&lt;p&gt;summary&lt;/p&gt;</summary>'' \<and>
   writeTextTag ''summary'' (EEntry test_entry) =
     ''<summary type="html">&lt;p&gt;summary&lt;/p&gt;</summary>''\<close>
  using writeTag_escapes [of \<open>''summary''\<close> \<open>Some [(''type'', ''html'')]\<close> \<open>''<p>summary</p>''\<close>
      \<open>EEntry test_entry\<close> \<open>Some HTML\<close>]
  by (simp add: test_entry_def writeAttributes_simps)

section \<open>The generator\<close>

text \<open>
  C2. The claim is that \<^verbatim>\<open>writeGenerator\<close> returns the rendered \<^verbatim>\<open>generator\<close> element
  of a present generator. The source computes the element
  (\<^verbatim>\<open><generator>Example Toolkit</generator>\<close> for the generator of its own comment, and
  without the \<^verbatim>\<open>uri\<close> and \<^verbatim>\<open>version\<close> attributes that comment shows), drops it and
  returns the empty string, so the document of a feed with that generator has no
  \<^verbatim>\<open>generator\<close> element.
\<close>

theorem writeGenerator_drops_element:
  \<open>writeEntityTag ''generator''
     (EGenerator (example_generator\<lparr>gen_generator := Some (gen_name example_generator)\<rparr>)) None =
     ''<generator>Example Toolkit</generator>'' \<and>
   fst (writeGenerator (Some example_generator)) = [] \<and>
   fst (writeFeed test_feed) =
     ''<?xml version="1.0" encoding="utf-8"?>'' @
     ''<feed xmlns="http://www.w3.org/2005/Atom">'' @
     ''<id>id</id><title>title</title><author><name>Person</name></author>'' @
     writeEntry test_entry (feed_author test_feed) @
     ''</feed>''\<close>
  by (simp add: example_generator_def writeGenerator_def test_feed_def person1_def writeFeed_def
      deref_def tag_defs)

text \<open>
  C3. The claim is that serialization writes no field of the model. \<^verbatim>\<open>writeGenerator\<close>
  assigns the generator's name to its \<^verbatim>\<open>generator\<close> field, so the feed after
  \<^verbatim>\<open>write\<close> differs from the feed before it.
\<close>

theorem writeGenerator_writes_model:
  \<open>snd (writeGenerator (Some example_generator)) =
     Some (example_generator\<lparr>gen_generator := Some ''Example Toolkit''\<rparr>) \<and>
   snd (writeFeed test_feed) =
     test_feed\<lparr>feed_generator :=
       Some (example_generator\<lparr>gen_generator := Some ''Example Toolkit''\<rparr>)\<rparr> \<and>
   snd (writeFeed test_feed) \<noteq> test_feed\<close>
  by (simp add: example_generator_def writeGenerator_def test_feed_def writeFeed_def Let_def)

section \<open>Entries\<close>

text \<open>
  C5. In \<^verbatim>\<open>writeEntry\<close> the author element of the entry is left out exactly when the
  entry's author and the feed author passed in are the same reference (or both are
  absent, where there is nothing to write). An entry's author at another address is
  written by \<^verbatim>\<open>writePerson\<close>, also when the two objects are equal in value.
\<close>

theorem writeEntry_author:
  \<open>writeEntry e feedAuthor =
     ''<entry>'' @
     writeEntityTag ''id'' (EEntry e) None @
     writeTextTag ''title'' (EEntry e) @
     writeEntityTag ''updated'' (EEntry e) None @
     writeEntityTag ''published'' (EEntry e) None @
     (case (feedAuthor, entry_author e) of
        (Some a, Some b) \<Rightarrow>
          if ref_addr a = ref_addr b then [] else writePerson ''author'' (Some (ref_obj b))
      | (None, Some b) \<Rightarrow> writePerson ''author'' (Some (ref_obj b))
      | (_, None) \<Rightarrow> []) @
     writePerson ''contributor'' (deref (entry_contributor e)) @
     writeTextTag ''rights'' (EEntry e) @
     writeTextTag ''content'' (EEntry e) @
     writeTextTag ''summary'' (EEntry e) @
     ''</entry>''\<close>
  by (cases feedAuthor; cases \<open>entry_author e\<close>) (simp_all add: writeEntry_def deref_def)

text \<open>
  The theorem at the test entry with the feed's author: once as the same reference,
  where the output is that of the entry with no author, and once as an equal person at
  another address, where the author element is written.
\<close>

theorem writeEntry_author_witness:
  \<open>writeEntry (test_entry\<lparr>entry_author := Some \<lparr>ref_addr = 1, ref_obj = OnePerson person1\<rparr>\<rparr>)
     (Some \<lparr>ref_addr = 1, ref_obj = OnePerson person1\<rparr>) =
     writeEntry test_entry None \<and>
   writeEntry (test_entry\<lparr>entry_author := Some \<lparr>ref_addr = 2, ref_obj = OnePerson person1\<rparr>\<rparr>)
     (Some \<lparr>ref_addr = 1, ref_obj = OnePerson person1\<rparr>) =
     ''<entry><id>id</id><title type="text">title</title>'' @
     ''<updated>2020-01-02T03:04:05.678Z</updated>'' @
     ''<published>2020-01-02T03:04:05.678Z</published>'' @
     ''<author><name>Person</name></author>'' @
     ''<content type="text">content</content>'' @
     ''<summary type="html">&lt;p&gt;summary&lt;/p&gt;</summary></entry>''\<close>
  using
    writeEntry_author [of \<open>test_entry\<lparr>entry_author := Some \<lparr>ref_addr = 1, ref_obj = OnePerson person1\<rparr>\<rparr>\<close>
      \<open>Some \<lparr>ref_addr = 1, ref_obj = OnePerson person1\<rparr>\<close>]
    writeEntry_author [of \<open>test_entry\<lparr>entry_author := Some \<lparr>ref_addr = 2, ref_obj = OnePerson person1\<rparr>\<rparr>\<close>
      \<open>Some \<lparr>ref_addr = 1, ref_obj = OnePerson person1\<rparr>\<close>]
    writeEntry_author [of test_entry None]
  by (simp add: test_entry_def person1_def deref_def tag_defs)

section \<open>Suppression of empty elements\<close>

text \<open>
  C4, as claimed: no element of the output is empty, the role wrappers of
  \<^verbatim>\<open>writePerson\<close> and the \<^verbatim>\<open>entry\<close> wrapper of \<^verbatim>\<open>writeEntry\<close> included. A person
  with an empty name and an entry with empty fields refute it: both wrappers are written
  with nothing inside.
\<close>

theorem empty_wrapper_counterexample:
  \<open>writePerson ''author'' (Some (OnePerson empty_person)) = ''<author></author>'' \<and>
   writeEntry empty_entry None = ''<entry></entry>''\<close>
  by (simp add: empty_person_def empty_entry_def writeEntry_def deref_def writeEntityTag_def
      writeTextTag_def writeTag_Some writeTag_None)

text \<open>
  C4, amended. Every element written through \<^verbatim>\<open>writeTag\<close>, so every entity tag and
  every text tag, is written only when its resolved content is non-empty, and then its
  escaped content is non-empty too. The role wrapper of \<^verbatim>\<open>writePerson\<close> and the
  \<^verbatim>\<open>entry\<close> wrapper of \<^verbatim>\<open>writeEntry\<close> are written for every person and every entry,
  whatever is inside.
\<close>

theorem written_tags_nonempty:
  \<open>(writeTag name v attr = [] \<or>
      (\<exists>c. c \<noteq> [] \<and> htmlEscape c \<noteq> [] \<and> v = Some c \<and>
         writeTag name v attr =
           ''<'' @ name @ writeAttributes attr @ ''>'' @ htmlEscape c @ ''</'' @ name @ ''>'')) \<and>
   (writeEntityTag name ent attr = [] \<or>
      (\<exists>c. c \<noteq> [] \<and> htmlEscape c \<noteq> [] \<and>
         writeEntityTag name ent attr =
           ''<'' @ name @ writeAttributes attr @ ''>'' @ htmlEscape c @ ''</'' @ name @ ''>'')) \<and>
   (writeTextTag name ent = [] \<or>
      (\<exists>a c. c \<noteq> [] \<and> htmlEscape c \<noteq> [] \<and>
         writeTextTag name ent =
           ''<'' @ name @ writeAttributes a @ ''>'' @ htmlEscape c @ ''</'' @ name @ ''>'')) \<and>
   (\<exists>body. writePerson tag (Some (OnePerson p)) = ''<'' @ tag @ ''>'' @ body @ ''</'' @ tag @ ''>'') \<and>
   (\<exists>body. writeEntry e feedAuthor = ''<entry>'' @ body @ ''</entry>'')\<close>
proof (intro conjI)
  show \<open>writeTag name v attr = [] \<or>
      (\<exists>c. c \<noteq> [] \<and> htmlEscape c \<noteq> [] \<and> v = Some c \<and>
         writeTag name v attr =
           ''<'' @ name @ writeAttributes attr @ ''>'' @ htmlEscape c @ ''</'' @ name @ ''>'')\<close>
    by (cases v) (simp_all add: writeTag_None writeTag_Some htmlEscape_Nil_iff)
  show \<open>writeEntityTag name ent attr = [] \<or>
      (\<exists>c. c \<noteq> [] \<and> htmlEscape c \<noteq> [] \<and>
         writeEntityTag name ent attr =
           ''<'' @ name @ writeAttributes attr @ ''>'' @ htmlEscape c @ ''</'' @ name @ ''>'')\<close>
    using writeEntityTag_cases [of name ent attr] by (simp add: htmlEscape_Nil_iff)
  show \<open>writeTextTag name ent = [] \<or>
      (\<exists>a c. c \<noteq> [] \<and> htmlEscape c \<noteq> [] \<and>
         writeTextTag name ent =
           ''<'' @ name @ writeAttributes a @ ''>'' @ htmlEscape c @ ''</'' @ name @ ''>'')\<close>
    using writeTextTag_cases [of name ent] by (simp add: htmlEscape_Nil_iff)
  show \<open>\<exists>body. writePerson tag (Some (OnePerson p)) =
      ''<'' @ tag @ ''>'' @ body @ ''</'' @ tag @ ''>''\<close>
    by (rule exI [of _ \<open>writeEntityTag ''name'' (EPerson p) None @
          writeEntityTag ''uri'' (EPerson p) None @ writeEntityTag ''email'' (EPerson p) None\<close>])
      simp
  show \<open>\<exists>body. writeEntry e feedAuthor = ''<entry>'' @ body @ ''</entry>''\<close>
    by (rule exI [of _ \<open>writeEntityTag ''id'' (EEntry e) None @
          writeTextTag ''title'' (EEntry e) @
          writeEntityTag ''updated'' (EEntry e) None @
          writeEntityTag ''published'' (EEntry e) None @
          (if looseEq feedAuthor (entry_author e) then []
           else writePerson ''author'' (deref (entry_author e))) @
          writePerson ''contributor'' (deref (entry_contributor e)) @
          writeTextTag ''rights'' (EEntry e) @
          writeTextTag ''content'' (EEntry e) @
          writeTextTag ''summary'' (EEntry e)\<close>])
      (simp add: writeEntry_def)
qed

text \<open>The theorem at the content field of the test entry.\<close>

theorem written_tags_nonempty_witness:
  \<open>writeTag ''content'' (Some ''Bob'') None = ''<content>Bob</content>'' \<and>
   writeEntityTag ''content'' (EEntry test_entry) None = ''<content>content</content>'' \<and>
   writeTextTag ''content'' (EEntry test_entry) = ''<content type="text">content</content>''\<close>
  using written_tags_nonempty [where name = \<open>''content''\<close> and v = \<open>Some ''Bob''\<close> and attr = None
      and ent = \<open>EEntry test_entry\<close> and tag = \<open>''author''\<close> and p = person2 and e = test_entry
      and feedAuthor = None]
  by (simp add: test_entry_def tag_defs)

section \<open>Titles\<close>

text \<open>
  C6, as claimed: the title of the feed is resolved as a text field, so a bare string
  title carries the type attribute. In the document of the example feed the feed's
  title has no type attribute, where the text resolver would write one.
\<close>

theorem feed_title_counterexample:
  \<open>field (EFeed test_feed) ''title'' = Some (JString ''title'') \<and>
   writeTextTag ''title'' (EFeed test_feed) = ''<title type="text">title</title>'' \<and>
   fst (writeFeed test_feed) =
     ''<?xml version="1.0" encoding="utf-8"?>'' @
     ''<feed xmlns="http://www.w3.org/2005/Atom">'' @
     ''<id>id</id>'' @
     ''<title>title</title>'' @
     ''<author><name>Person</name></author>'' @
     ''<entry><id>id</id><title type="text">title</title>'' @
     ''<updated>2020-01-02T03:04:05.678Z</updated>'' @
     ''<published>2020-01-02T03:04:05.678Z</published>'' @
     ''<content type="text">content</content>'' @
     ''<summary type="html">&lt;p&gt;summary&lt;/p&gt;</summary></entry>'' @
     ''</feed>''\<close>
  by (simp add: test_feed_def test_entry_def person1_def writeFeed_def writeGenerator_fst
      writeEntry_def deref_def split_beta tag_defs)

text \<open>
  C6, amended. The title of an entry is resolved by the text resolver in
  \<^verbatim>\<open>writeEntry\<close>: a non-empty bare string is written with the type of
  \<^verbatim>\<open>TextType.Plain\<close>, a structured title with a non-empty value is written with that
  value and with its own type when it has one, and an empty or absent title writes
  nothing. The title of the feed is written by \<^verbatim>\<open>write\<close> as an entity tag: a non-empty
  string title is the escaped string in a \<^verbatim>\<open>title\<close> element with no type attribute.
\<close>

theorem title_resolution:
  \<open>(\<exists>rest. writeEntry e feedAuthor =
      ''<entry>'' @ writeEntityTag ''id'' (EEntry e) None @
      (case entry_title e of
         None \<Rightarrow> []
       | Some (JString s) \<Rightarrow>
           if s = [] then []
           else ''<title type="text">'' @ htmlEscape s @ ''</title>''
       | Some (JText t) \<Rightarrow>
           (case text_value t of
              None \<Rightarrow> []
            | Some v \<Rightarrow>
                if v = [] then []
                else ''<title'' @
                     (case text_type t of
                        Some ty \<Rightarrow> '' type="'' @ textTypeValue ty @ ''"''
                      | None \<Rightarrow> []) @
                     ''>'' @ htmlEscape v @ ''</title>'')
       | Some (JDate d) \<Rightarrow> []) @
      rest) \<and>
   (\<exists>rest. fst (writeFeed feed) =
      ''<?xml version="1.0" encoding="utf-8"?>'' @
      ''<feed xmlns="http://www.w3.org/2005/Atom">'' @
      writeEntityTag ''id'' (EFeed feed) None @
      (case feed_title feed of
         Some (JString s) \<Rightarrow> if s = [] then [] else ''<title>'' @ htmlEscape s @ ''</title>''
       | _ \<Rightarrow> writeEntityTag ''title'' (EFeed feed) None) @
      rest)\<close>
proof (intro conjI)
  have title: \<open>writeTextTag ''title'' (EEntry e) =
      (case entry_title e of
         None \<Rightarrow> []
       | Some (JString s) \<Rightarrow>
           if s = [] then []
           else ''<title type="text">'' @ htmlEscape s @ ''</title>''
       | Some (JText t) \<Rightarrow>
           (case text_value t of
              None \<Rightarrow> []
            | Some v \<Rightarrow>
                if v = [] then []
                else ''<title'' @
                     (case text_type t of
                        Some ty \<Rightarrow> '' type="'' @ textTypeValue ty @ ''"''
                      | None \<Rightarrow> []) @
                     ''>'' @ htmlEscape v @ ''</title>'')
       | Some (JDate d) \<Rightarrow> [])\<close>
    by (simp add: writeTextTag_resolved split: option.splits jsval.splits)
  show \<open>\<exists>rest. writeEntry e feedAuthor =
      ''<entry>'' @ writeEntityTag ''id'' (EEntry e) None @
      (case entry_title e of
         None \<Rightarrow> []
       | Some (JString s) \<Rightarrow>
           if s = [] then []
           else ''<title type="text">'' @ htmlEscape s @ ''</title>''
       | Some (JText t) \<Rightarrow>
           (case text_value t of
              None \<Rightarrow> []
            | Some v \<Rightarrow>
                if v = [] then []
                else ''<title'' @
                     (case text_type t of
                        Some ty \<Rightarrow> '' type="'' @ textTypeValue ty @ ''"''
                      | None \<Rightarrow> []) @
                     ''>'' @ htmlEscape v @ ''</title>'')
       | Some (JDate d) \<Rightarrow> []) @
      rest\<close>
    unfolding title [symmetric] writeEntry_def by (simp only: same_append_eq) (rule exI, rule refl)
  have ftitle: \<open>writeEntityTag ''title'' (EFeed feed) None =
      (case feed_title feed of
         Some (JString s) \<Rightarrow> if s = [] then [] else ''<title>'' @ htmlEscape s @ ''</title>''
       | _ \<Rightarrow> writeEntityTag ''title'' (EFeed feed) None)\<close>
    by (simp add: writeEntityTag_def writeTag_Some writeAttributes_simps
        split: option.splits jsval.splits)
  have doc: \<open>fst (writeFeed feed) =
      ''<?xml version="1.0" encoding="utf-8"?>'' @
      ''<feed xmlns="http://www.w3.org/2005/Atom">'' @
      writeEntityTag ''id'' (EFeed feed) None @
      writeEntityTag ''title'' (EFeed feed) None @
      (writeEntityTag ''subtitle'' (EFeed feed) None @
       writeEntityTag ''rights'' (EFeed feed) None @
       writePerson ''author'' (deref (feed_author feed)) @
       join [] (map (\<lambda>e. writeEntry e (feed_author feed)) (feed_entry feed)) @
       ''</feed>'')\<close>
    by (simp add: writeFeed_def split_beta writeGenerator_fst)
  show \<open>\<exists>rest. fst (writeFeed feed) =
      ''<?xml version="1.0" encoding="utf-8"?>'' @
      ''<feed xmlns="http://www.w3.org/2005/Atom">'' @
      writeEntityTag ''id'' (EFeed feed) None @
      (case feed_title feed of
         Some (JString s) \<Rightarrow> if s = [] then [] else ''<title>'' @ htmlEscape s @ ''</title>''
       | _ \<Rightarrow> writeEntityTag ''title'' (EFeed feed) None) @
      rest\<close>
    unfolding ftitle [symmetric] doc by (simp only: same_append_eq) (rule exI, rule refl)
qed

text \<open>The theorem at the test entry and the example feed.\<close>

theorem title_resolution_witness:
  \<open>(\<exists>rest. writeEntry test_entry None =
      ''<entry>'' @ ''<id>id</id>'' @ ''<title type="text">title</title>'' @ rest) \<and>
   (\<exists>rest. fst (writeFeed test_feed) =
      ''<?xml version="1.0" encoding="utf-8"?>'' @
      ''<feed xmlns="http://www.w3.org/2005/Atom">'' @
      ''<id>id</id>'' @ ''<title>title</title>'' @ rest)\<close>
proof -
  have id_entry: \<open>writeEntityTag ''id'' (EEntry test_entry) None = ''<id>id</id>''\<close>
    by (simp add: test_entry_def tag_defs)
  have id_feed: \<open>writeEntityTag ''id'' (EFeed test_feed) None = ''<id>id</id>''\<close>
    by (simp add: test_feed_def tag_defs)
  have esc: \<open>htmlEscape ''title'' = ''title''\<close>
    by (simp add: htmlEscape_def htmlEntity_def)
  have t_entry: \<open>entry_title test_entry = Some (JString ''title'')\<close>
    by (simp add: test_entry_def)
  have t_feed: \<open>feed_title test_feed = Some (JString ''title'')\<close>
    by (simp add: test_feed_def)
  show ?thesis
    using title_resolution [of test_entry None test_feed]
    unfolding id_entry id_feed t_entry t_feed
    by (simp add: esc)
qed

section \<open>Links\<close>

text \<open>
  C8, as claimed: an attribute of a link is written only when its value is non-empty.
  A link whose \<^verbatim>\<open>rel\<close> is the empty string refutes it: the attribute is written.
\<close>

theorem writeLink_empty_value_counterexample:
  \<open>link_get [(''href'', Some ''http://x''), (''rel'', Some [])] ''rel'' = Some [] \<and>
   writeLink (OneLink (LinkObj [(''href'', Some ''http://x''), (''rel'', Some [])])) =
     ''<link href="http://x" rel=""/>''\<close>
  by (simp add: link_get_def is_value_def template_def)

text \<open>
  C8, amended. \<^verbatim>\<open>writeLink\<close> renders a bare string as the link with that \<^verbatim>\<open>href\<close> and
  the relation \<^verbatim>\<open>alternate\<close>. A link object renders as one self-closing \<^verbatim>\<open>link\<close>
  element whose attributes are its keys sorted by name, each written when its value is
  present, that is neither \<^verbatim>\<open>null\<close> nor \<^verbatim>\<open>undefined\<close> (an empty string is present);
  a present \<^verbatim>\<open>href\<close> is therefore always written. A sequence renders as the
  concatenation of its links' elements in input order. The example of the specification
  holds for a link whose keys were inserted in another order.
\<close>

theorem writeLink_renders:
  \<open>writeLink (OneLink (LinkText s)) = ''<link href="'' @ s @ ''" rel="alternate"/>'' \<and>
   writeLink (OneLink (LinkObj link)) =
     ''<link'' @
     concat (map (\<lambda>key. case link_get link key of
                           Some v \<Rightarrow> '' '' @ key @ ''="'' @ v @ ''"''
                         | None \<Rightarrow> [])
               (sort (map fst link))) @
     ''/>'' \<and>
   (map_of link ''href'' = Some (Some h) \<longrightarrow>
      (\<exists>pre post. writeLink (OneLink (LinkObj link)) =
         ''<link'' @ pre @ '' href="'' @ h @ ''"'' @ post @ ''/>'')) \<and>
   writeLink (ManyLinks ls) = concat (map (\<lambda>l. writeLink (OneLink l)) ls) \<and>
   writeLink (OneLink (LinkObj [(''href'', Some ''http://x''), (''type'', Some ''atom+xml''),
                                 (''rel'', Some ''enclosure'')])) =
     ''<link href="http://x" rel="enclosure" type="atom+xml"/>''\<close>
proof (intro conjI impI)
  show \<open>writeLink (OneLink (LinkText s)) = ''<link href="'' @ s @ ''" rel="alternate"/>''\<close>
    by (rule writeLink_text)
  show \<open>writeLink (OneLink (LinkObj link)) =
     ''<link'' @
     concat (map (\<lambda>key. case link_get link key of
                           Some v \<Rightarrow> '' '' @ key @ ''="'' @ v @ ''"''
                         | None \<Rightarrow> [])
               (sort (map fst link))) @
     ''/>''\<close>
    by (rule writeLink_obj)
  show \<open>\<exists>pre post. writeLink (OneLink (LinkObj link)) =
         ''<link'' @ pre @ '' href="'' @ h @ ''"'' @ post @ ''/>''\<close>
    if \<open>map_of link ''href'' = Some (Some h)\<close>
    using that by (rule writeLink_href)
  show \<open>writeLink (ManyLinks ls) = concat (map (\<lambda>l. writeLink (OneLink l)) ls)\<close>
    by (rule writeLink_many)
  show \<open>writeLink (OneLink (LinkObj [(''href'', Some ''http://x''), (''type'', Some ''atom+xml''),
                                 (''rel'', Some ''enclosure'')])) =
     ''<link href="http://x" rel="enclosure" type="atom+xml"/>''\<close>
    by (rule writeLink_example)
qed

text \<open>
  The theorem at a bare string and at a link object with an absent type, an empty
  relation and a present \<^verbatim>\<open>href\<close>.
\<close>

theorem writeLink_renders_witness:
  \<open>writeLink (OneLink (LinkText ''http://www.test.com'')) =
     ''<link href="'' @ ''http://www.test.com'' @ ''" rel="alternate"/>'' \<and>
   map_of [(''type'', None), (''rel'', Some []), (''href'', Some ''http://x'')] ''href'' =
     Some (Some ''http://x'') \<and>
   (\<exists>pre post.
      writeLink (OneLink (LinkObj [(''type'', None), (''rel'', Some []), (''href'', Some ''http://x'')])) =
        ''<link'' @ pre @ '' href="'' @ ''http://x'' @ ''"'' @ post @ ''/>'')\<close>
proof -
  note inst = writeLink_renders [of \<open>''http://www.test.com''\<close>
      \<open>[(''type'', None), (''rel'', Some []), (''href'', Some ''http://x'')]\<close> \<open>''http://x''\<close> \<open>[]\<close>]
  have present:
    \<open>map_of [(''type'', None), (''rel'', Some []), (''href'', Some ''http://x'')] ''href'' =
       Some (Some ''http://x'')\<close>
    by simp
  from inst have first: \<open>writeLink (OneLink (LinkText ''http://www.test.com'')) =
     ''<link href="'' @ ''http://www.test.com'' @ ''" rel="alternate"/>''\<close>
    by (rule conjunct1)
  from inst present have third: \<open>\<exists>pre post.
      writeLink (OneLink (LinkObj [(''type'', None), (''rel'', Some []), (''href'', Some ''http://x'')])) =
        ''<link'' @ pre @ '' href="'' @ ''http://x'' @ ''"'' @ post @ ''/>''\<close>
    by (elim conjE impE)
  from first present third show ?thesis
    by (intro conjI)
qed

section \<open>Links in the document\<close>

text \<open>
  C10. For every feed, the string \<^verbatim>\<open>write\<close> returns has no occurrence of \<^verbatim>\<open><link\<close>:
  neither \<^verbatim>\<open>write\<close> nor \<^verbatim>\<open>writeEntry\<close> calls \<^verbatim>\<open>writeLink\<close>, and every \<^verbatim>\<open><\<close> of the
  content is escaped. The link field of an entry has no effect on \<^verbatim>\<open>writeEntry\<close>, and
  replacing the link fields of all entries of a feed leaves the document as it is.
\<close>

theorem write_has_no_link:
  \<open>\<not> sublist ''<link'' (fst (writeFeed feed)) \<and>
   writeEntry (e\<lparr>entry_link := l\<rparr>) feedAuthor = writeEntry e feedAuthor \<and>
   fst (writeFeed (feed\<lparr>feed_entry := map (\<lambda>e. e\<lparr>entry_link := f e\<rparr>) (feed_entry feed)\<rparr>)) =
     fst (writeFeed feed)\<close>
proof (intro conjI)
  show \<open>\<not> sublist ''<link'' (fst (writeFeed feed))\<close>
    by (rule tagSafe_no_link) (rule writeFeed_tagSafe)
  show \<open>writeEntry (e\<lparr>entry_link := l\<rparr>) feedAuthor = writeEntry e feedAuthor\<close>
    by (rule writeEntry_link_irrelevant)
  show \<open>fst (writeFeed (feed\<lparr>feed_entry := map (\<lambda>e. e\<lparr>entry_link := f e\<rparr>) (feed_entry feed)\<rparr>)) =
     fst (writeFeed feed)\<close>
    by (simp add: writeFeed_def split_beta writeGenerator_fst join_empty_sep
        writeEntityTag_def writeEntry_link_irrelevant comp_def)
qed

text \<open>The theorem at the example feed, whose entry has a link, with every link removed.\<close>

theorem write_has_no_link_witness:
  \<open>\<not> sublist ''<link'' (fst (writeFeed test_feed)) \<and>
   fst (writeFeed (test_feed\<lparr>feed_entry :=
      map (\<lambda>e. e\<lparr>entry_link := None\<rparr>) (feed_entry test_feed)\<rparr>)) =
     fst (writeFeed test_feed)\<close>
  using write_has_no_link [where feed = test_feed and e = test_entry and l = None
      and feedAuthor = None and f = \<open>\<lambda>e. None\<close>]
  by simp

end
